theory Spec2Isabelle
  imports Complex_Main "HOL-Library.Log_Nat"
begin

section \<open>The system configuration collector (sysconfig\_windows.py)\<close>

text \<open>
  The script gathers facts about the host (platform, CPU, memory, disks, network
  interfaces, environment, a timestamp) into one dictionary and dumps it as YAML.
  Everything it learns comes from calls into the platform, psutil, os, datetime and
  yaml modules. A run is modelled against a \<open>world\<close>: the answers those calls give
  during the run. An answer is either a result or a fault, the \<open>str()\<close> of an
  exception derived from \<open>Exception\<close>, which is all the script ever reads of it.
\<close>

subsection \<open>Values\<close>

text \<open>
  The Python values that end up in the configuration dictionary. A dict is an
  association list in insertion order (the order YAML output keeps, since the dump is
  called with \<open>sort_keys=False\<close>). A float is modelled by a rational number that it is
  the nearest double to: for a float psutil hands over, its own value; for the result
  of \<open>round(x, 2)\<close>, the number with two decimals that the rounding arrives at before it
  is turned into a double again.
\<close>

datatype pyval =
    VNone
  | VStr string
  | VInt int
  | VFloat rat
  | VList "pyval list"
  | VDict "(string \<times> pyval) list"

text \<open>\<open>d[k] = v\<close>: an existing key keeps its position, a new key goes last.\<close>

fun dict_set :: "(string \<times> 'v) list \<Rightarrow> string \<Rightarrow> 'v \<Rightarrow> (string \<times> 'v) list" where
  "dict_set [] k v = [(k, v)]"
| "dict_set ((k', v') # d) k v =
     (if k' = k then (k, v) # d else (k', v') # dict_set d k v)"

text \<open>\<open>x\<close> for a value that may be \<open>None\<close>.\<close>

definition opt_int :: "int option \<Rightarrow> pyval" where
  "opt_int x = (case x of None \<Rightarrow> VNone | Some n \<Rightarrow> VInt n)"

definition opt_str :: "string option \<Rightarrow> pyval" where
  "opt_str x = (case x of None \<Rightarrow> VNone | Some s \<Rightarrow> VStr s)"

subsection \<open>The world: what the external modules answer\<close>

type_synonym fault = string

text \<open>psutil's named tuples, with the fields the script reads.\<close>

record scpufreq =
  freq_current :: rat
  freq_min :: rat
  freq_max :: rat

record svmem =
  vm_total :: int
  vm_available :: int
  vm_used :: int
  vm_percent :: rat

record sdiskpart =
  part_device :: string
  part_mountpoint :: string
  part_fstype :: string
  part_opts :: string

record sdiskusage =
  du_total :: int
  du_used :: int
  du_free :: int
  du_percent :: rat

text \<open>\<open>addr_family\<close> is \<open>str(addr.family)\<close>, the only use the script makes of it.\<close>

record snicaddr =
  addr_family :: string
  addr_address :: string
  addr_netmask :: "string option"
  addr_broadcast :: "string option"
  addr_ptp :: "string option"

record psutil_mod =
  cpu_freq :: "fault + scpufreq option"
  cpu_count :: "bool \<Rightarrow> fault + int option"
  cpu_percent :: "fault + rat"
  virtual_memory :: "fault + svmem"
  disk_partitions :: "fault + sdiskpart list"
  disk_usage :: "string \<Rightarrow> fault + sdiskusage"
  net_if_addrs :: "fault + (string \<times> snicaddr list) list"

text \<open>
  \<open>psutil\<close> is the module object bound by the guarded import at the top of the script
  (\<open>None\<close> after an \<open>ImportError\<close>); \<open>yaml_importable\<close> says whether \<open>import yaml\<close>
  succeeds. \<open>open_w path\<close> is the fault of \<open>open(path, 'w')\<close>, if any.
  \<open>yaml_dump path data\<close> stands for \<open>yaml.dump(data, file, ...)\<close> on the stream opened
  at \<open>path\<close> together with the close on leaving the \<open>with\<close> block: the text that has
  reached the file, and the fault raised on the way, if any.
  \<open>stdout_encode line\<close> is the \<open>UnicodeEncodeError\<close> of writing \<open>line\<close> to standard
  output, if its encoding cannot represent the line.
\<close>

record world =
  psutil :: "psutil_mod option"
  yaml_importable :: bool
  platform_system :: "fault + string"
  platform_release :: "fault + string"
  platform_version :: "fault + string"
  platform_machine :: "fault + string"
  platform_processor :: "fault + string"
  os_environ :: "fault + (string \<times> string) list"
  datetime_now_isoformat :: "fault + string"
  open_w :: "string \<Rightarrow> fault option"
  yaml_dump :: "string \<Rightarrow> pyval \<Rightarrow> string \<times> fault option"
  stdout_encode :: "string \<Rightarrow> fault option"

subsection \<open>Effects: the call log, standard output, the files\<close>

datatype call =
    PlatformSystem | PlatformRelease | PlatformVersion | PlatformMachine
  | PlatformProcessor
  | CpuFreq | CpuCount bool | CpuPercent
  | VirtualMemory
  | DiskPartitions | DiskUsage string
  | NetIfAddrs
  | OsEnviron
  | DatetimeNow
  | OpenW string
  | YamlDump string

fun is_psutil_call :: "call \<Rightarrow> bool" where
  "is_psutil_call CpuFreq = True"
| "is_psutil_call (CpuCount _) = True"
| "is_psutil_call CpuPercent = True"
| "is_psutil_call VirtualMemory = True"
| "is_psutil_call DiskPartitions = True"
| "is_psutil_call (DiskUsage _) = True"
| "is_psutil_call NetIfAddrs = True"
| "is_psutil_call _ = False"

record pstate =
  calls :: "call list"
  stdout :: "string list"
  files :: "string \<rightharpoonup> string"

text \<open>
  How a piece of code ends: it returns, it raises an exception derived from
  \<open>Exception\<close> (kept as its message), or it raises \<open>SystemExit\<close>, which
  \<open>except Exception\<close> does not catch.
\<close>

datatype 'a outcome = Return 'a | Raise fault | SysExit int

type_synonym 'a io = "pstate \<Rightarrow> 'a outcome \<times> pstate"

definition ret :: "'a \<Rightarrow> 'a io" where
  "ret x = (\<lambda>s. (Return x, s))"

text \<open>\<open>seq m f\<close>: run \<open>m\<close>, then \<open>f\<close> on its result; an exception of \<open>m\<close> skips \<open>f\<close>.\<close>

definition seq :: "'a io \<Rightarrow> ('a \<Rightarrow> 'b io) \<Rightarrow> 'b io" where
  "seq m f = (\<lambda>s. case m s of
      (Return x, s') \<Rightarrow> f x s'
    | (Raise e, s') \<Rightarrow> (Raise e, s')
    | (SysExit n, s') \<Rightarrow> (SysExit n, s'))"

text \<open>\<open>try: m except Exception as e: h e\<close>.\<close>

definition try_except :: "'a io \<Rightarrow> (fault \<Rightarrow> 'a io) \<Rightarrow> 'a io" where
  "try_except m h = (\<lambda>s. case m s of
      (Raise e, s') \<Rightarrow> h e s'
    | (Return x, s') \<Rightarrow> (Return x, s')
    | (SysExit n, s') \<Rightarrow> (SysExit n, s'))"

text \<open>A call into an external module: logged, then the world's answer.\<close>

definition extcall :: "call \<Rightarrow> fault + 'a \<Rightarrow> 'a io" where
  "extcall c r = (\<lambda>s.
     ((case r of Inl e \<Rightarrow> Raise e | Inr x \<Rightarrow> Return x), s\<lparr>calls := calls s @ [c]\<rparr>))"

text \<open>A computation inside the interpreter: nothing is logged.\<close>

definition compute :: "fault + 'a \<Rightarrow> 'a io" where
  "compute r = (\<lambda>s. ((case r of Inl e \<Rightarrow> Raise e | Inr x \<Rightarrow> Return x), s))"

text \<open>
  \<open>print(line)\<close> on a standard output that is open. Strings are sequences of bytes
  (UTF-8), so a line is ASCII when every byte is below 128. ASCII text can be written
  in every encoding; other text raises when the encoding of the stream cannot
  represent it, and then nothing of the line is written.
\<close>

definition is_ascii :: "string \<Rightarrow> bool" where
  "is_ascii line = list_all (\<lambda>c. (of_char c :: nat) < 128) line"

definition print :: "world \<Rightarrow> string \<Rightarrow> unit io" where
  "print w line = (\<lambda>s.
     case (if is_ascii line then None else stdout_encode w line) of
       Some e \<Rightarrow> (Raise e, s)
     | None \<Rightarrow> (Return (), s\<lparr>stdout := stdout s @ [line]\<rparr>))"

definition sys_exit :: "int \<Rightarrow> 'a io" where
  "sys_exit n = (\<lambda>s. (SysExit n, s))"

subsection \<open>Bytes to megabytes\<close>

text \<open>Rounding to the nearest integer, a tie going to the even one.\<close>

definition round_half_even :: "rat \<Rightarrow> int" where
  "round_half_even y =
     (let f = \<lfloor>y\<rfloor>; d = y - of_int f
      in if d < 1 / 2 then f
         else if 1 / 2 < d then f + 1
         else if even f then f else f + 1)"

text \<open>
  \<open>n / (1024 ** 2)\<close> for an integer \<open>n\<close>: true division gives the double nearest to
  the quotient, a tie going to the even significand, and raises \<open>OverflowError\<close> when
  that double would be \<open>2 ^ 1024\<close> or more. The divisor is \<open>2 ^ 20\<close>, so the quotient is
  a double exactly when \<open>n\<close> is an integer of at most 53 bits times a power of two:
  a count below \<open>2 ^ 53\<close> is divided exactly, a longer one is first rounded to its 53
  leading bits.
\<close>

definition true_div_mb :: "int \<Rightarrow> fault + rat" where
  "true_div_mb n =
     (if \<bar>n\<bar> < 2 ^ 53 then Inr (of_int n / 1024 ^ 2)
      else
        let shift = nat (bitlen \<bar>n\<bar>) - 53;
            m = round_half_even (of_int n / 2 ^ shift) * 2 ^ shift
        in if 2 ^ 1044 \<le> \<bar>m\<bar>
           then Inl ''integer division result too large for a float''
           else Inr (of_int m / 1024 ^ 2))"

text \<open>
  \<open>round(x, 2)\<close> on a double \<open>x\<close>: the nearest number with two decimals, a tie going
  to the even last digit, and then the double nearest to that number.
\<close>

definition round2 :: "rat \<Rightarrow> rat" where
  "round2 x = of_int (round_half_even (x * 100)) / 100"

text \<open>\<open>round(n / (1024 ** 2), 2)\<close>.\<close>

definition bytes_to_mb :: "int \<Rightarrow> fault + rat" where
  "bytes_to_mb n =
     (case true_div_mb n of Inl e \<Rightarrow> Inl e | Inr x \<Rightarrow> Inr (round2 x))"

subsection \<open>gather\_info, section by section\<close>

text \<open>Lines 52 to 58: no \<open>try\<close> around the platform calls.\<close>

definition gather_os :: "world \<Rightarrow> pyval io" where
  "gather_os w =
     seq (extcall PlatformSystem (platform_system w)) (\<lambda>sy.
     seq (extcall PlatformRelease (platform_release w)) (\<lambda>re.
     seq (extcall PlatformVersion (platform_version w)) (\<lambda>ve.
     seq (extcall PlatformMachine (platform_machine w)) (\<lambda>ma.
     seq (extcall PlatformProcessor (platform_processor w)) (\<lambda>pr.
     ret (VDict [(''system'', VStr sy), (''release'', VStr re), (''version'', VStr ve),
                 (''machine'', VStr ma), (''processor'', VStr pr)]))))))"

text \<open>
  Lines 61 to 75. \<open>cpu_freq.max if cpu_freq else None\<close>: a named tuple is truthy, so
  the test is whether \<open>cpu_freq()\<close> returned \<open>None\<close>.
\<close>

definition opt_freq :: "scpufreq option \<Rightarrow> (scpufreq \<Rightarrow> rat) \<Rightarrow> pyval" where
  "opt_freq cf field = (case cf of None \<Rightarrow> VNone | Some f \<Rightarrow> VFloat (field f))"

definition gather_cpu :: "psutil_mod option \<Rightarrow> pyval io" where
  "gather_cpu ps = (case ps of
      Some p \<Rightarrow>
        try_except
          (seq (extcall CpuFreq (cpu_freq p)) (\<lambda>cf.
           seq (extcall (CpuCount False) (cpu_count p False)) (\<lambda>physical.
           seq (extcall (CpuCount True) (cpu_count p True)) (\<lambda>logical.
           seq (extcall CpuPercent (cpu_percent p)) (\<lambda>usage.
           ret (VDict [(''physical_cores'', opt_int physical),
                       (''total_cores'', opt_int logical),
                       (''max_frequency_mhz'', opt_freq cf freq_max),
                       (''min_frequency_mhz'', opt_freq cf freq_min),
                       (''current_frequency_mhz'', opt_freq cf freq_current),
                       (''cpu_usage_percent'', VFloat usage)]))))))
          (\<lambda>e. ret (VStr (''Error collecting CPU info: '' @ e)))
    | None \<Rightarrow> ret (VStr ''psutil module not available''))"

text \<open>
  Lines 78 to 90. The three conversions stand inside the \<open>try\<close>, in the order of the
  dict literal.
\<close>

definition gather_memory :: "psutil_mod option \<Rightarrow> pyval io" where
  "gather_memory ps = (case ps of
      Some p \<Rightarrow>
        try_except
          (seq (extcall VirtualMemory (virtual_memory p)) (\<lambda>virtual_mem.
           seq (compute (bytes_to_mb (vm_total virtual_mem))) (\<lambda>total_mb.
           seq (compute (bytes_to_mb (vm_available virtual_mem))) (\<lambda>available_mb.
           seq (compute (bytes_to_mb (vm_used virtual_mem))) (\<lambda>used_mb.
           ret (VDict [(''total_mb'', VFloat total_mb),
                       (''available_mb'', VFloat available_mb),
                       (''used_mb'', VFloat used_mb),
                       (''percentage'', VFloat (vm_percent virtual_mem))]))))))
          (\<lambda>e. ret (VStr (''Error collecting memory info: '' @ e)))
    | None \<Rightarrow> ret (VStr ''psutil module not available''))"

text \<open>
  Lines 97 to 115, the loop over the partitions: each partition has its own \<open>try\<close>,
  around the usage call and the three conversions, and its record is appended to
  \<open>disk_info\<close> whichever branch built it.
\<close>

fun disk_loop :: "psutil_mod \<Rightarrow> sdiskpart list \<Rightarrow> pyval list \<Rightarrow> pyval list io" where
  "disk_loop p [] disk_info = ret disk_info"
| "disk_loop p (part # rest) disk_info =
     seq (try_except
            (seq (extcall (DiskUsage (part_mountpoint part))
                    (disk_usage p (part_mountpoint part))) (\<lambda>usage.
             seq (compute (bytes_to_mb (du_total usage))) (\<lambda>total_mb.
             seq (compute (bytes_to_mb (du_used usage))) (\<lambda>used_mb.
             seq (compute (bytes_to_mb (du_free usage))) (\<lambda>free_mb.
             ret (VDict [(''device'', VStr (part_device part)),
                         (''mountpoint'', VStr (part_mountpoint part)),
                         (''fstype'', VStr (part_fstype part)),
                         (''opts'', VStr (part_opts part)),
                         (''total_mb'', VFloat total_mb),
                         (''used_mb'', VFloat used_mb),
                         (''free_mb'', VFloat free_mb),
                         (''percentage'', VFloat (du_percent usage))]))))))
            (\<lambda>e. ret (VDict [(''device'', VStr (part_device part)),
                              (''error'', VStr e)])))
         (\<lambda>partition_data. disk_loop p rest (disk_info @ [partition_data]))"

text \<open>Lines 93 to 120.\<close>

definition gather_disk :: "psutil_mod option \<Rightarrow> pyval io" where
  "gather_disk ps = (case ps of
      Some p \<Rightarrow>
        try_except
          (seq (extcall DiskPartitions (disk_partitions p)) (\<lambda>partitions.
           seq (disk_loop p partitions []) (\<lambda>disk_info.
           ret (VList disk_info))))
          (\<lambda>e. ret (VStr (''Error collecting disk info: '' @ e)))
    | None \<Rightarrow> ret (VStr ''psutil module not available''))"

text \<open>Lines 127 to 137: the loops over the interfaces and their addresses call nothing.\<close>

definition addr_record :: "snicaddr \<Rightarrow> pyval" where
  "addr_record addr =
     VDict [(''family'', VStr (addr_family addr)),
            (''address'', VStr (addr_address addr)),
            (''netmask'', opt_str (addr_netmask addr)),
            (''broadcast'', opt_str (addr_broadcast addr)),
            (''ptp'', opt_str (addr_ptp addr))]"

fun net_loop ::
  "(string \<times> snicaddr list) list \<Rightarrow> (string \<times> pyval) list \<Rightarrow> (string \<times> pyval) list" where
  "net_loop [] net_info = net_info"
| "net_loop ((interface, addrs) # rest) net_info =
     net_loop rest (dict_set net_info interface (VList (map addr_record addrs)))"

text \<open>Lines 123 to 142.\<close>

definition gather_network :: "psutil_mod option \<Rightarrow> pyval io" where
  "gather_network ps = (case ps of
      Some p \<Rightarrow>
        try_except
          (seq (extcall NetIfAddrs (net_if_addrs p)) (\<lambda>interfaces.
           ret (VDict (net_loop interfaces []))))
          (\<lambda>e. ret (VStr (''Error collecting network info: '' @ e)))
    | None \<Rightarrow> ret (VStr ''psutil module not available''))"

text \<open>Lines 145 to 148.\<close>

definition gather_environment :: "world \<Rightarrow> pyval io" where
  "gather_environment w =
     try_except
       (seq (extcall OsEnviron (os_environ w)) (\<lambda>env.
        ret (VDict (map (\<lambda>(k, v). (k, VStr v)) env))))
       (\<lambda>e. ret (VStr (''Error collecting environment variables: '' @ e)))"

text \<open>
  Lines 49 to 153. The timestamp (line 151) has no \<open>try\<close> around it either.
\<close>

definition gather_info :: "world \<Rightarrow> pyval io" where
  "gather_info w =
     seq (gather_os w) (\<lambda>v_os.
     seq (gather_cpu (psutil w)) (\<lambda>v_cpu.
     seq (gather_memory (psutil w)) (\<lambda>v_memory.
     seq (gather_disk (psutil w)) (\<lambda>v_disk.
     seq (gather_network (psutil w)) (\<lambda>v_network.
     seq (gather_environment w) (\<lambda>v_environment.
     seq (extcall DatetimeNow (datetime_now_isoformat w)) (\<lambda>now.
     ret (let config = [];
              config = dict_set config ''os'' v_os;
              config = dict_set config ''cpu'' v_cpu;
              config = dict_set config ''memory'' v_memory;
              config = dict_set config ''disk'' v_disk;
              config = dict_set config ''network'' v_network;
              config = dict_set config ''environment'' v_environment;
              config = dict_set config ''timestamp'' (VStr now)
          in VDict config))))))))"

subsection \<open>write\_config, main and the script\<close>

text \<open>
  Lines 164 and 165: \<open>open(file_path, 'w')\<close> truncates the file; the dump then leaves
  in it what the world says has reached it.
\<close>

definition open_and_dump :: "world \<Rightarrow> string \<Rightarrow> pyval \<Rightarrow> unit io" where
  "open_and_dump w file_path config = (\<lambda>s.
     case open_w w file_path of
       Some e \<Rightarrow> (Raise e, s\<lparr>calls := calls s @ [OpenW file_path]\<rparr>)
     | None \<Rightarrow>
         (case yaml_dump w file_path config of (text, flt) \<Rightarrow>
            ((case flt of Some e \<Rightarrow> Raise e | None \<Rightarrow> Return ()),
             s\<lparr>calls := calls s @ [OpenW file_path, YamlDump file_path],
               files := (files s)(file_path \<mapsto> text)\<rparr>)))"

definition write_config :: "world \<Rightarrow> pyval \<Rightarrow> string \<Rightarrow> unit io" where
  "write_config w config file_path =
     try_except
       (seq (open_and_dump w file_path config) (\<lambda>_.
        print w (''Configuration file successfully saved to '' @ file_path)))
       (\<lambda>e. print w (''Failed to write configuration file: '' @ e))"

text \<open>Lines 178 to 180: \<open>sys.argv[1]\<close> is read only when \<open>len(sys.argv) > 1\<close>.\<close>

definition output_file :: "string list \<Rightarrow> string" where
  "output_file argv =
     (if length argv > 1 then argv ! 1 else ''system_config.yaml'')"

definition main :: "world \<Rightarrow> string list \<Rightarrow> unit io" where
  "main w argv =
     try_except
       (seq (gather_info w) (\<lambda>config_data.
        write_config w config_data (output_file argv)))
       (\<lambda>e. seq (print w (''An error occurred: '' @ e)) (\<lambda>_. sys_exit 1))"

text \<open>
  The module body, run as a script: the guarded import of yaml (lines 26 to 30), then
  \<open>main()\<close>.
\<close>

definition pyyaml_missing :: string where
  "pyyaml_missing =
     ''PyYAML is not installed. Please install it using '' @ [CHR 0x27] @
     ''pip install PyYAML'' @ [CHR 0x27]"

definition script :: "world \<Rightarrow> string list \<Rightarrow> unit io" where
  "script w argv =
     (if yaml_importable w then main w argv
      else seq (print w pyyaml_missing) (\<lambda>_. sys_exit 1))"


subsection \<open>Notions used to state the properties\<close>

text \<open>
  The platform calls and the clock answer without a fault. The script has no failure
  path for them.
\<close>

definition platform_ok :: "world \<Rightarrow> bool" where
  "platform_ok w =
     (\<not> isl (platform_system w) \<and> \<not> isl (platform_release w) \<and>
      \<not> isl (platform_version w) \<and> \<not> isl (platform_machine w) \<and>
      \<not> isl (platform_processor w))"

definition clock_ok :: "world \<Rightarrow> bool" where
  "clock_ok w = (\<not> isl (datetime_now_isoformat w))"

text \<open>The first fault among the four psutil calls of the CPU section, in call order.\<close>

definition cpu_fault :: "psutil_mod \<Rightarrow> fault option" where
  "cpu_fault p =
     (case cpu_freq p of Inl e \<Rightarrow> Some e | Inr _ \<Rightarrow>
     (case cpu_count p False of Inl e \<Rightarrow> Some e | Inr _ \<Rightarrow>
     (case cpu_count p True of Inl e \<Rightarrow> Some e | Inr _ \<Rightarrow>
     (case cpu_percent p of Inl e \<Rightarrow> Some e | Inr _ \<Rightarrow> None))))"


text \<open>
  The record of one partition as the specification describes it: reduced when its
  \<open>try\<close> block faults, in the usage call or in a conversion, full otherwise.
\<close>

definition reduced_record :: "sdiskpart \<Rightarrow> fault \<Rightarrow> pyval" where
  "reduced_record part e =
     VDict [(''device'', VStr (part_device part)), (''error'', VStr e)]"

definition full_record :: "sdiskpart \<Rightarrow> rat \<Rightarrow> rat \<Rightarrow> rat \<Rightarrow> rat \<Rightarrow> pyval" where
  "full_record part total_mb used_mb free_mb percentage =
     VDict [(''device'', VStr (part_device part)),
            (''mountpoint'', VStr (part_mountpoint part)),
            (''fstype'', VStr (part_fstype part)),
            (''opts'', VStr (part_opts part)),
            (''total_mb'', VFloat total_mb),
            (''used_mb'', VFloat used_mb),
            (''free_mb'', VFloat free_mb),
            (''percentage'', VFloat percentage)]"

definition partition_record :: "psutil_mod \<Rightarrow> sdiskpart \<Rightarrow> pyval" where
  "partition_record p part =
     (case disk_usage p (part_mountpoint part) of
        Inl e \<Rightarrow> reduced_record part e
      | Inr usage \<Rightarrow>
          (case bytes_to_mb (du_total usage) of
             Inl e \<Rightarrow> reduced_record part e
           | Inr total_mb \<Rightarrow>
               (case bytes_to_mb (du_used usage) of
                  Inl e \<Rightarrow> reduced_record part e
                | Inr used_mb \<Rightarrow>
                    (case bytes_to_mb (du_free usage) of
                       Inl e \<Rightarrow> reduced_record part e
                     | Inr free_mb \<Rightarrow>
                         full_record part total_mb used_mb free_mb (du_percent usage)))))"



text \<open>A piece of code that neither prints nor touches a file.\<close>

definition quiet :: "'a io \<Rightarrow> bool" where
  "quiet m = (\<forall>s. stdout (snd (m s)) = stdout s \<and> files (snd (m s)) = files s)"

text \<open>A piece of code that only adds to the call log.\<close>

definition logs :: "'a io \<Rightarrow> bool" where
  "logs m = (\<forall>s. set (calls s) \<subseteq> set (calls (snd (m s))))"

text \<open>A piece of code that leaves the file at \<open>path\<close> as it is.\<close>

definition keeps_file :: "string \<Rightarrow> 'a io \<Rightarrow> bool" where
  "keeps_file path m = (\<forall>s. files (snd (m s)) path = files s path)"

definition section_keys :: "string list" where
  "section_keys =
     [''os'', ''cpu'', ''memory'', ''disk'', ''network'', ''environment'', ''timestamp'']"

subsection \<open>A sample host\<close>

text \<open>
  A host with psutil, 1 GiB of memory and two partitions, the second one an empty
  drive whose usage cannot be read. Writing under \<open>/proc\<close> is refused. Standard
  output takes any text.
\<close>

definition sample_psutil :: psutil_mod where
  "sample_psutil =
     \<lparr>cpu_freq = Inr (Some \<lparr>freq_current = 2400, freq_min = 800, freq_max = 3600\<rparr>),
      cpu_count = (\<lambda>logical. Inr (Some (if logical then 8 else 4))),
      cpu_percent = Inr (25 / 2),
      virtual_memory =
        Inr \<lparr>vm_total = 1073741824, vm_available = 536870912, vm_used = 131072,
             vm_percent = 50\<rparr>,
      disk_partitions =
        Inr [\<lparr>part_device = ''/dev/sda1'', part_mountpoint = ''/'',
               part_fstype = ''ext4'', part_opts = ''rw''\<rparr>,
             \<lparr>part_device = ''/dev/sr0'', part_mountpoint = ''/media/cdrom'',
               part_fstype = ''iso9660'', part_opts = ''ro''\<rparr>],
      disk_usage = (\<lambda>mountpoint.
        if mountpoint = ''/''
        then Inr \<lparr>du_total = 1073741824, du_used = 393216, du_free = 1073348608,
                  du_percent = 1 / 10\<rparr>
        else Inl ''[Errno 123] No medium found''),
      net_if_addrs =
        Inr [(''lo'', [\<lparr>addr_family = ''AddressFamily.AF_INET'',
                         addr_address = ''127.0.0.1'',
                         addr_netmask = Some ''255.0.0.0'',
                         addr_broadcast = None, addr_ptp = None\<rparr>])]\<rparr>"

definition sample_host :: world where
  "sample_host =
     \<lparr>psutil = Some sample_psutil,
      yaml_importable = True,
      platform_system = Inr ''Linux'',
      platform_release = Inr ''6.1.0'',
      platform_version = Inr ''#1 SMP'',
      platform_machine = Inr ''x86_64'',
      platform_processor = Inr ''unknown'',
      os_environ = Inr [(''HOME'', ''/root''), (''LANG'', ''C'')],
      datetime_now_isoformat = Inr ''2025-02-17T10:00:00.000001'',
      open_w = (\<lambda>path.
        if take 6 path = ''/proc/'' then Some ''[Errno 13] Permission denied'' else None),
      yaml_dump = (\<lambda>path data.
        (case data of VDict d \<Rightarrow> concat (map (\<lambda>(k, v). k @ '': ...; '') d) | _ \<Rightarrow> ''...'',
         None)),
      stdout_encode = (\<lambda>line. None)\<rparr>"

text \<open>A run starts with nothing logged or printed; an older snapshot is on disk.\<close>

definition fresh :: pstate where
  "fresh = \<lparr>calls = [], stdout = [], files = [''system_config.yaml'' \<mapsto> ''old'']\<rparr>"

text \<open>The same psutil with two sources out of order.\<close>

definition faulty_psutil :: psutil_mod where
  "faulty_psutil =
     sample_psutil\<lparr>cpu_count := (\<lambda>logical. Inl ''access denied''),
       virtual_memory := Inl ''no meminfo''\<rparr>"

text \<open>The sample host on a platform that reports no CPU frequency.\<close>

definition nofreq_host :: world where
  "nofreq_host = sample_host\<lparr>psutil := Some (sample_psutil\<lparr>cpu_freq := Inr None\<rparr>)\<rparr>"




section \<open>Properties\<close>

subsection \<open>The combinators\<close>

lemmas io_simps =
  seq_def try_except_def extcall_def compute_def ret_def print_def sys_exit_def

lemma quiet_ret: "quiet (ret x)"
  by (simp add: quiet_def ret_def)

lemma quiet_extcall: "quiet (extcall c r)"
  by (simp add: quiet_def extcall_def)

lemma quiet_compute: "quiet (compute r)"
  by (simp add: quiet_def compute_def)

lemma quiet_seq:
  assumes "quiet m" and "\<And>x. quiet (f x)"
  shows "quiet (seq m f)"
  unfolding quiet_def
proof
  fix s
  obtain r s' where m: "m s = (r, s')" by (cases "m s")
  with assms(1) have s': "stdout s' = stdout s" "files s' = files s"
    unfolding quiet_def by (metis snd_conv)+
  show "stdout (snd (seq m f s)) = stdout s \<and> files (snd (seq m f s)) = files s"
  proof (cases r)
    case (Return x)
    with m have "seq m f s = f x s'" by (simp add: seq_def)
    with assms(2) [of x] s' show ?thesis by (simp add: quiet_def)
  qed (simp_all add: seq_def m s')
qed

lemma quiet_try_except:
  assumes "quiet m" and "\<And>e. quiet (h e)"
  shows "quiet (try_except m h)"
  unfolding quiet_def
proof
  fix s
  obtain r s' where m: "m s = (r, s')" by (cases "m s")
  with assms(1) have s': "stdout s' = stdout s" "files s' = files s"
    unfolding quiet_def by (metis snd_conv)+
  show "stdout (snd (try_except m h s)) = stdout s \<and> files (snd (try_except m h s)) = files s"
  proof (cases r)
    case (Raise e)
    with m have "try_except m h s = h e s'" by (simp add: try_except_def)
    with assms(2) [of e] s' show ?thesis by (simp add: quiet_def)
  qed (simp_all add: try_except_def m s')
qed

lemmas quiet_intros = quiet_ret quiet_extcall quiet_compute quiet_seq quiet_try_except

lemma logs_ret: "logs (ret x)"
  by (simp add: logs_def ret_def)

lemma logs_extcall: "logs (extcall c r)"
  by (auto simp: logs_def extcall_def)

lemma logs_compute: "logs (compute r)"
  by (simp add: logs_def compute_def)

lemma logs_seq:
  assumes "logs m" and "\<And>x. logs (f x)"
  shows "logs (seq m f)"
  unfolding logs_def
proof
  fix s
  obtain r s' where m: "m s = (r, s')" by (cases "m s")
  with assms(1) have s': "set (calls s) \<subseteq> set (calls s')"
    unfolding logs_def by (metis snd_conv)
  show "set (calls s) \<subseteq> set (calls (snd (seq m f s)))"
  proof (cases r)
    case (Return x)
    with m have "seq m f s = f x s'" by (simp add: seq_def)
    with assms(2) [of x] s' show ?thesis unfolding logs_def by (metis subset_trans)
  qed (simp_all add: seq_def m s')
qed

lemma logs_try_except:
  assumes "logs m" and "\<And>e. logs (h e)"
  shows "logs (try_except m h)"
  unfolding logs_def
proof
  fix s
  obtain r s' where m: "m s = (r, s')" by (cases "m s")
  with assms(1) have s': "set (calls s) \<subseteq> set (calls s')"
    unfolding logs_def by (metis snd_conv)
  show "set (calls s) \<subseteq> set (calls (snd (try_except m h s)))"
  proof (cases r)
    case (Raise e)
    with m have "try_except m h s = h e s'" by (simp add: try_except_def)
    with assms(2) [of e] s' show ?thesis unfolding logs_def by (metis subset_trans)
  qed (simp_all add: try_except_def m s')
qed

lemmas logs_intros = logs_ret logs_extcall logs_compute logs_seq logs_try_except

subsection \<open>The sections\<close>

lemma disk_loop_run:
  "disk_loop p parts disk_info s =
     (Return (disk_info @ map (partition_record p) parts),
      s\<lparr>calls := calls s @ map (\<lambda>part. DiskUsage (part_mountpoint part)) parts\<rparr>)"
proof (induction parts arbitrary: disk_info s)
  case Nil
  show ?case by (simp add: ret_def)
next
  case (Cons part rest)
  show ?case
    by (simp add: io_simps Cons.IH partition_record_def reduced_record_def full_record_def
        split: sum.splits)
qed

lemma quiet_disk_loop: "quiet (disk_loop p parts disk_info)"
  by (simp add: quiet_def disk_loop_run)

lemma logs_disk_loop: "logs (disk_loop p parts disk_info)"
  by (simp add: logs_def disk_loop_run)

lemma quiet_gather_os: "quiet (gather_os w)"
  unfolding gather_os_def by (intro quiet_intros)

lemma quiet_gather_cpu: "quiet (gather_cpu ps)"
  unfolding gather_cpu_def by (cases ps) (auto intro!: quiet_intros)

lemma quiet_gather_memory: "quiet (gather_memory ps)"
  unfolding gather_memory_def by (cases ps) (auto intro!: quiet_intros)

lemma quiet_gather_disk: "quiet (gather_disk ps)"
  unfolding gather_disk_def by (cases ps) (auto intro!: quiet_intros quiet_disk_loop)

lemma quiet_gather_network: "quiet (gather_network ps)"
  unfolding gather_network_def by (cases ps) (auto intro!: quiet_intros)

lemma quiet_gather_environment: "quiet (gather_environment w)"
  unfolding gather_environment_def by (intro quiet_intros)

lemma quiet_gather_info: "quiet (gather_info w)"
  unfolding gather_info_def
  by (intro quiet_intros quiet_gather_os quiet_gather_cpu quiet_gather_memory
      quiet_gather_disk quiet_gather_network quiet_gather_environment)

lemma logs_gather_os: "logs (gather_os w)"
  unfolding gather_os_def by (intro logs_intros)

lemma logs_gather_cpu: "logs (gather_cpu ps)"
  unfolding gather_cpu_def by (cases ps) (auto intro!: logs_intros)

lemma logs_gather_memory: "logs (gather_memory ps)"
  unfolding gather_memory_def by (cases ps) (auto intro!: logs_intros)

lemma logs_gather_disk: "logs (gather_disk ps)"
  unfolding gather_disk_def by (cases ps) (auto intro!: logs_intros logs_disk_loop)

lemma logs_gather_network: "logs (gather_network ps)"
  unfolding gather_network_def by (cases ps) (auto intro!: logs_intros)

lemma logs_gather_environment: "logs (gather_environment w)"
  unfolding gather_environment_def by (intro logs_intros)

lemma logsD: "logs m \<Longrightarrow> m s = (r, s') \<Longrightarrow> set (calls s) \<subseteq> set (calls s')"
  unfolding logs_def by (metis snd_conv)

text \<open>Each guarded section returns, whatever its data source does.\<close>

lemma gather_cpu_returns:
  "\<exists>v s'. gather_cpu ps s = (Return v, s') \<and> v \<noteq> VNone \<and>
     (ps \<noteq> None \<longrightarrow> CpuFreq \<in> set (calls s'))"
  by (auto simp: gather_cpu_def io_simps split: option.splits sum.splits)

lemma gather_memory_returns:
  "\<exists>v s'. gather_memory ps s = (Return v, s') \<and> v \<noteq> VNone \<and>
     (ps \<noteq> None \<longrightarrow> VirtualMemory \<in> set (calls s'))"
  by (auto simp: gather_memory_def io_simps split: option.splits sum.splits)

lemma gather_disk_returns:
  "\<exists>v s'. gather_disk ps s = (Return v, s') \<and> v \<noteq> VNone \<and>
     (ps \<noteq> None \<longrightarrow> DiskPartitions \<in> set (calls s'))"
  by (cases ps; cases "disk_partitions (the ps)")
    (auto simp: gather_disk_def io_simps disk_loop_run)

lemma gather_network_returns:
  "\<exists>v s'. gather_network ps s = (Return v, s') \<and> v \<noteq> VNone \<and>
     (ps \<noteq> None \<longrightarrow> NetIfAddrs \<in> set (calls s'))"
  by (auto simp: gather_network_def io_simps split: option.splits sum.splits)

lemma gather_environment_returns:
  "\<exists>v s'. gather_environment w s = (Return v, s') \<and> v \<noteq> VNone \<and>
     OsEnviron \<in> set (calls s')"
  by (auto simp: gather_environment_def io_simps split: option.splits sum.splits)

lemma gather_os_returns:
  assumes "platform_ok w"
  shows "\<exists>v s'. gather_os w s = (Return v, s') \<and> v \<noteq> VNone"
  using assms
  by (auto simp: gather_os_def platform_ok_def io_simps split: sum.splits)

lemma gather_info_run:
  assumes "platform_ok w" and "clock_ok w"
  shows "\<exists>v_os v_cpu v_memory v_disk v_network v_environment now s1 s2 s3 s4 s5 s6.
    gather_os w s = (Return v_os, s1) \<and>
    gather_cpu (psutil w) s1 = (Return v_cpu, s2) \<and>
    gather_memory (psutil w) s2 = (Return v_memory, s3) \<and>
    gather_disk (psutil w) s3 = (Return v_disk, s4) \<and>
    gather_network (psutil w) s4 = (Return v_network, s5) \<and>
    gather_environment w s5 = (Return v_environment, s6) \<and>
    datetime_now_isoformat w = Inr now \<and>
    v_os \<noteq> VNone \<and> v_cpu \<noteq> VNone \<and> v_memory \<noteq> VNone \<and> v_disk \<noteq> VNone \<and>
    v_network \<noteq> VNone \<and> v_environment \<noteq> VNone \<and>
    (psutil w \<noteq> None \<longrightarrow>
       {CpuFreq, VirtualMemory, DiskPartitions, NetIfAddrs} \<subseteq> set (calls s6)) \<and>
    OsEnviron \<in> set (calls s6) \<and>
    gather_info w s =
      (Return (VDict [(''os'', v_os), (''cpu'', v_cpu), (''memory'', v_memory),
         (''disk'', v_disk), (''network'', v_network), (''environment'', v_environment),
         (''timestamp'', VStr now)]),
       s6\<lparr>calls := calls s6 @ [DatetimeNow]\<rparr>)"
proof -
  obtain v_os s1 where os: "gather_os w s = (Return v_os, s1)" "v_os \<noteq> VNone"
    using gather_os_returns [OF assms(1)] by blast
  obtain v_cpu s2 where cpu: "gather_cpu (psutil w) s1 = (Return v_cpu, s2)" "v_cpu \<noteq> VNone"
    "psutil w \<noteq> None \<longrightarrow> CpuFreq \<in> set (calls s2)"
    using gather_cpu_returns by blast
  obtain v_memory s3 where mem: "gather_memory (psutil w) s2 = (Return v_memory, s3)"
    "v_memory \<noteq> VNone" "psutil w \<noteq> None \<longrightarrow> VirtualMemory \<in> set (calls s3)"
    using gather_memory_returns by blast
  obtain v_disk s4 where disk: "gather_disk (psutil w) s3 = (Return v_disk, s4)"
    "v_disk \<noteq> VNone" "psutil w \<noteq> None \<longrightarrow> DiskPartitions \<in> set (calls s4)"
    using gather_disk_returns by blast
  obtain v_network s5 where net: "gather_network (psutil w) s4 = (Return v_network, s5)"
    "v_network \<noteq> VNone" "psutil w \<noteq> None \<longrightarrow> NetIfAddrs \<in> set (calls s5)"
    using gather_network_returns by blast
  obtain v_environment s6 where env: "gather_environment w s5 = (Return v_environment, s6)"
    "v_environment \<noteq> VNone" "OsEnviron \<in> set (calls s6)"
    using gather_environment_returns by blast
  obtain now where now: "datetime_now_isoformat w = Inr now"
    using assms(2) by (cases "datetime_now_isoformat w") (simp_all add: clock_ok_def)
  have mono: "set (calls s2) \<subseteq> set (calls s3)" "set (calls s3) \<subseteq> set (calls s4)"
    "set (calls s4) \<subseteq> set (calls s5)" "set (calls s5) \<subseteq> set (calls s6)"
    using logsD [OF logs_gather_memory mem(1)] logsD [OF logs_gather_disk disk(1)]
      logsD [OF logs_gather_network net(1)] logsD [OF logs_gather_environment env(1)]
    by simp_all
  have psutil_calls: "psutil w \<noteq> None \<longrightarrow>
      {CpuFreq, VirtualMemory, DiskPartitions, NetIfAddrs} \<subseteq> set (calls s6)"
    using cpu(3) mem(3) disk(3) net(3) mono by blast
  have "gather_info w s =
      (Return (VDict [(''os'', v_os), (''cpu'', v_cpu), (''memory'', v_memory),
         (''disk'', v_disk), (''network'', v_network), (''environment'', v_environment),
         (''timestamp'', VStr now)]),
       s6\<lparr>calls := calls s6 @ [DatetimeNow]\<rparr>)"
    unfolding gather_info_def
    by (simp add: seq_def os(1) cpu(1) mem(1) disk(1) net(1) env(1) now extcall_def ret_def)
  with os cpu mem disk net env now psutil_calls show ?thesis
    by (intro exI conjI) assumption+
qed

subsection \<open>The shape of the snapshot\<close>






subsection \<open>Faults inside a section\<close>

lemma gather_cpu_fault:
  assumes "cpu_fault p = Some e" and "gather_cpu (Some p) s = (Return v, s')"
  shows "v = VStr (''Error collecting CPU info: '' @ e)"
  using assms
  by (auto simp: gather_cpu_def cpu_fault_def io_simps split: sum.splits)

lemma gather_memory_fault:
  assumes "virtual_memory p = Inl e" and "gather_memory (Some p) s = (Return v, s')"
  shows "v = VStr (''Error collecting memory info: '' @ e)"
  using assms by (auto simp: gather_memory_def io_simps)

lemma gather_disk_fault:
  assumes "disk_partitions p = Inl e" and "gather_disk (Some p) s = (Return v, s')"
  shows "v = VStr (''Error collecting disk info: '' @ e)"
  using assms by (auto simp: gather_disk_def io_simps)

lemma gather_network_fault:
  assumes "net_if_addrs p = Inl e" and "gather_network (Some p) s = (Return v, s')"
  shows "v = VStr (''Error collecting network info: '' @ e)"
  using assms by (auto simp: gather_network_def io_simps)

lemma gather_environment_fault:
  assumes "os_environ w = Inl e" and "gather_environment w s = (Return v, s')"
  shows "v = VStr (''Error collecting environment variables: '' @ e)"
  using assms by (auto simp: gather_environment_def io_simps)

text \<open>
  Claim C2, as amended. Five of the seven sections have a failure boundary of their
  own: cpu, memory, disk, network and environment. A fault in the data source of one of
  them becomes the descriptive string of that section, \<open>gather_info\<close> still returns
  the seven sections, and the other sources are still called. The os section and the
  timestamp have no boundary: the amended claim promises nothing for a fault there.
\<close>

theorem section_faults_become_strings:
  assumes "platform_ok w" and "clock_ok w"
  shows "\<exists>config s'. gather_info w s = (Return (VDict config), s') \<and>
     map fst config = section_keys \<and>
     (\<forall>p e. psutil w = Some p \<and> cpu_fault p = Some e \<longrightarrow>
        map_of config ''cpu'' = Some (VStr (''Error collecting CPU info: '' @ e))) \<and>
     (\<forall>p e. psutil w = Some p \<and> virtual_memory p = Inl e \<longrightarrow>
        map_of config ''memory'' = Some (VStr (''Error collecting memory info: '' @ e))) \<and>
     (\<forall>p e. psutil w = Some p \<and> disk_partitions p = Inl e \<longrightarrow>
        map_of config ''disk'' = Some (VStr (''Error collecting disk info: '' @ e))) \<and>
     (\<forall>p e. psutil w = Some p \<and> net_if_addrs p = Inl e \<longrightarrow>
        map_of config ''network'' = Some (VStr (''Error collecting network info: '' @ e))) \<and>
     (\<forall>e. os_environ w = Inl e \<longrightarrow>
        map_of config ''environment'' =
          Some (VStr (''Error collecting environment variables: '' @ e))) \<and>
     (psutil w \<noteq> None \<longrightarrow>
        {CpuFreq, VirtualMemory, DiskPartitions, NetIfAddrs} \<subseteq> set (calls s')) \<and>
     OsEnviron \<in> set (calls s') \<and> DatetimeNow \<in> set (calls s')"
proof -
  from gather_info_run [OF assms, of s]
  obtain v_os v_cpu v_memory v_disk v_network v_environment now s1 s2 s3 s4 s5 s6
    where cpu: "gather_cpu (psutil w) s1 = (Return v_cpu, s2)"
      and mem: "gather_memory (psutil w) s2 = (Return v_memory, s3)"
      and disk: "gather_disk (psutil w) s3 = (Return v_disk, s4)"
      and net: "gather_network (psutil w) s4 = (Return v_network, s5)"
      and env: "gather_environment w s5 = (Return v_environment, s6)"
      and logged: "psutil w \<noteq> None \<longrightarrow>
        {CpuFreq, VirtualMemory, DiskPartitions, NetIfAddrs} \<subseteq> set (calls s6)"
        "OsEnviron \<in> set (calls s6)"
      and run: "gather_info w s =
        (Return (VDict [(''os'', v_os), (''cpu'', v_cpu), (''memory'', v_memory),
           (''disk'', v_disk), (''network'', v_network), (''environment'', v_environment),
           (''timestamp'', VStr now)]),
         s6\<lparr>calls := calls s6 @ [DatetimeNow]\<rparr>)"
    by blast
  let ?config = "[(''os'', v_os), (''cpu'', v_cpu), (''memory'', v_memory),
     (''disk'', v_disk), (''network'', v_network), (''environment'', v_environment),
     (''timestamp'', VStr now)]"
  let ?s' = "s6\<lparr>calls := calls s6 @ [DatetimeNow]\<rparr>"
  have "map fst ?config = section_keys"
    by (simp add: section_keys_def)
  moreover have "\<forall>p e. psutil w = Some p \<and> cpu_fault p = Some e \<longrightarrow>
      map_of ?config ''cpu'' = Some (VStr (''Error collecting CPU info: '' @ e))"
    using cpu gather_cpu_fault by fastforce
  moreover have "\<forall>p e. psutil w = Some p \<and> virtual_memory p = Inl e \<longrightarrow>
      map_of ?config ''memory'' = Some (VStr (''Error collecting memory info: '' @ e))"
    using mem gather_memory_fault by fastforce
  moreover have "\<forall>p e. psutil w = Some p \<and> disk_partitions p = Inl e \<longrightarrow>
      map_of ?config ''disk'' = Some (VStr (''Error collecting disk info: '' @ e))"
    using disk gather_disk_fault by fastforce
  moreover have "\<forall>p e. psutil w = Some p \<and> net_if_addrs p = Inl e \<longrightarrow>
      map_of ?config ''network'' = Some (VStr (''Error collecting network info: '' @ e))"
    using net gather_network_fault by fastforce
  moreover have "\<forall>e. os_environ w = Inl e \<longrightarrow>
      map_of ?config ''environment'' =
        Some (VStr (''Error collecting environment variables: '' @ e))"
    using env gather_environment_fault by fastforce
  moreover have "psutil w \<noteq> None \<longrightarrow>
      {CpuFreq, VirtualMemory, DiskPartitions, NetIfAddrs} \<subseteq> set (calls ?s')"
    using logged(1) by auto
  moreover have "OsEnviron \<in> set (calls ?s')" "DatetimeNow \<in> set (calls ?s')"
    using logged(2) by simp_all
  ultimately show ?thesis
    using run by blast
qed

theorem section_faults_become_strings_witness:
  "platform_ok (sample_host\<lparr>psutil := Some faulty_psutil\<rparr>) \<and>
   clock_ok (sample_host\<lparr>psutil := Some faulty_psutil\<rparr>) \<and>
   cpu_fault faulty_psutil = Some ''access denied'' \<and>
   virtual_memory faulty_psutil = Inl ''no meminfo'' \<and>
   (\<exists>config s'.
      gather_info (sample_host\<lparr>psutil := Some faulty_psutil\<rparr>) fresh =
        (Return (VDict config), s') \<and>
      map fst config = section_keys \<and>
      map_of config ''cpu'' = Some (VStr ''Error collecting CPU info: access denied'') \<and>
      map_of config ''memory'' = Some (VStr ''Error collecting memory info: no meminfo'') \<and>
      {DiskPartitions, NetIfAddrs, OsEnviron, DatetimeNow} \<subseteq> set (calls s'))"
proof -
  let ?w = "sample_host\<lparr>psutil := Some faulty_psutil\<rparr>"
  have ok: "platform_ok ?w" "clock_ok ?w"
    by (simp_all add: platform_ok_def clock_ok_def sample_host_def)
  have flt: "cpu_fault faulty_psutil = Some ''access denied''"
    "virtual_memory faulty_psutil = Inl ''no meminfo''"
    by (simp_all add: cpu_fault_def faulty_psutil_def sample_psutil_def)
  have ps: "psutil ?w = Some faulty_psutil" by simp
  from section_faults_become_strings [OF ok, of fresh] ps flt
  show ?thesis using ok by fastforce
qed

text \<open>
  The claim as written counts os and timestamp among the guarded sections. A fault of
  \<open>platform.system()\<close> leaves \<open>gather_info\<close> as an exception before any other
  section is collected, and so does a fault of the clock after all of them.
\<close>

theorem unguarded_sections_counterexample:
  "fst (gather_info (sample_host\<lparr>platform_system := Inl ''uname failed''\<rparr>) fresh) =
     Raise ''uname failed'' \<and>
   calls (snd (gather_info (sample_host\<lparr>platform_system := Inl ''uname failed''\<rparr>) fresh)) =
     [PlatformSystem] \<and>
   fst (gather_info (sample_host\<lparr>psutil := None,
          datetime_now_isoformat := Inl ''clock failed''\<rparr>) fresh) =
     Raise ''clock failed''"
  by (simp add: gather_info_def gather_os_def gather_cpu_def gather_memory_def
      gather_disk_def gather_network_def gather_environment_def io_simps
      sample_host_def fresh_def)

subsection \<open>Without psutil\<close>

lemma no_psutil_calls:
  assumes "psutil w = None"
  shows "\<forall>c \<in> set (calls (snd (gather_info w s))). is_psutil_call c \<longrightarrow> c \<in> set (calls s)"
  using assms
  by (auto simp: gather_info_def gather_os_def gather_cpu_def gather_memory_def
      gather_disk_def gather_network_def gather_environment_def io_simps
      split: sum.splits)

text \<open>
  Claim C3. When psutil could not be imported, \<open>gather_info\<close> makes no psutil call
  at all, and the cpu, memory, disk and network values of the snapshot it returns are
  one and the same marker string.
\<close>

theorem no_psutil_marks_four_sections:
  assumes "psutil w = None"
  shows "(\<forall>c \<in> set (calls (snd (gather_info w s))). is_psutil_call c \<longrightarrow> c \<in> set (calls s)) \<and>
    (platform_ok w \<and> clock_ok w \<longrightarrow>
      (\<exists>config s'. gather_info w s = (Return (VDict config), s') \<and>
         map_of config ''cpu'' = Some (VStr ''psutil module not available'') \<and>
         map_of config ''memory'' = Some (VStr ''psutil module not available'') \<and>
         map_of config ''disk'' = Some (VStr ''psutil module not available'') \<and>
         map_of config ''network'' = Some (VStr ''psutil module not available'')))"
proof (intro conjI impI)
  show "\<forall>c \<in> set (calls (snd (gather_info w s))). is_psutil_call c \<longrightarrow> c \<in> set (calls s)"
    by (rule no_psutil_calls [OF assms])
next
  assume "platform_ok w \<and> clock_ok w"
  then have ok: "platform_ok w" "clock_ok w" by simp_all
  from gather_info_run [OF ok, of s]
  obtain v_os v_cpu v_memory v_disk v_network v_environment now s1 s2 s3 s4 s5 s6
    where cpu: "gather_cpu (psutil w) s1 = (Return v_cpu, s2)"
      and mem: "gather_memory (psutil w) s2 = (Return v_memory, s3)"
      and disk: "gather_disk (psutil w) s3 = (Return v_disk, s4)"
      and net: "gather_network (psutil w) s4 = (Return v_network, s5)"
      and run: "gather_info w s =
        (Return (VDict [(''os'', v_os), (''cpu'', v_cpu), (''memory'', v_memory),
           (''disk'', v_disk), (''network'', v_network), (''environment'', v_environment),
           (''timestamp'', VStr now)]),
         s6\<lparr>calls := calls s6 @ [DatetimeNow]\<rparr>)"
    by blast
  have "v_cpu = VStr ''psutil module not available''"
    using cpu assms by (simp add: gather_cpu_def ret_def)
  moreover have "v_memory = VStr ''psutil module not available''"
    using mem assms by (simp add: gather_memory_def ret_def)
  moreover have "v_disk = VStr ''psutil module not available''"
    using disk assms by (simp add: gather_disk_def ret_def)
  moreover have "v_network = VStr ''psutil module not available''"
    using net assms by (simp add: gather_network_def ret_def)
  ultimately show "\<exists>config s'. gather_info w s = (Return (VDict config), s') \<and>
      map_of config ''cpu'' = Some (VStr ''psutil module not available'') \<and>
      map_of config ''memory'' = Some (VStr ''psutil module not available'') \<and>
      map_of config ''disk'' = Some (VStr ''psutil module not available'') \<and>
      map_of config ''network'' = Some (VStr ''psutil module not available'')"
    using run by simp
qed

theorem no_psutil_marks_four_sections_witness:
  "psutil (sample_host\<lparr>psutil := None\<rparr>) = None \<and>
   platform_ok (sample_host\<lparr>psutil := None\<rparr>) \<and>
   clock_ok (sample_host\<lparr>psutil := None\<rparr>) \<and>
   (\<exists>config s'. gather_info (sample_host\<lparr>psutil := None\<rparr>) fresh = (Return (VDict config), s') \<and>
      map_of config ''cpu'' = Some (VStr ''psutil module not available'') \<and>
      map_of config ''memory'' = Some (VStr ''psutil module not available'') \<and>
      map_of config ''disk'' = Some (VStr ''psutil module not available'') \<and>
      map_of config ''network'' = Some (VStr ''psutil module not available'')) \<and>
   list_all (\<lambda>c. \<not> is_psutil_call c)
     (calls (snd (gather_info (sample_host\<lparr>psutil := None\<rparr>) fresh)))"
proof -
  let ?w = "sample_host\<lparr>psutil := None\<rparr>"
  have ps: "psutil ?w = None" by simp
  have ok: "platform_ok ?w \<and> clock_ok ?w"
    by (simp add: platform_ok_def clock_ok_def sample_host_def)
  have "calls fresh = []" by (simp add: fresh_def)
  with no_psutil_marks_four_sections [OF ps, of fresh] ok ps
  show ?thesis by (auto simp: list_all_iff)
qed

subsection \<open>Disk partitions\<close>








subsection \<open>Megabytes\<close>








subsection \<open>CPU frequency\<close>

lemma gather_cpu_without_freq:
  assumes "cpu_freq p = Inr None"
    and "cpu_count p False = Inr physical" and "cpu_count p True = Inr logical"
    and "cpu_percent p = Inr usage"
    and "gather_cpu (Some p) s = (Return v, s')"
  shows "v = VDict [(''physical_cores'', opt_int physical),
                    (''total_cores'', opt_int logical),
                    (''max_frequency_mhz'', VNone),
                    (''min_frequency_mhz'', VNone),
                    (''current_frequency_mhz'', VNone),
                    (''cpu_usage_percent'', VFloat usage)]"
  using assms by (auto simp: gather_cpu_def io_simps opt_freq_def)

text \<open>
  Claim C6, as amended. When \<open>cpu_freq()\<close> returns \<open>None\<close> and the other CPU
  calls answer, the keys \<open>max_frequency_mhz\<close>, \<open>min_frequency_mhz\<close> and
  \<open>current_frequency_mhz\<close> are present in the cpu record, each bound to \<open>None\<close>.
\<close>

theorem unreported_frequency_is_null:
  assumes "platform_ok w" and "clock_ok w" and "psutil w = Some p"
    and "cpu_freq p = Inr None"
    and "cpu_count p False = Inr physical" and "cpu_count p True = Inr logical"
    and "cpu_percent p = Inr usage"
  shows "\<exists>config s'. gather_info w s = (Return (VDict config), s') \<and>
     map_of config ''cpu'' =
       Some (VDict [(''physical_cores'', opt_int physical),
                    (''total_cores'', opt_int logical),
                    (''max_frequency_mhz'', VNone),
                    (''min_frequency_mhz'', VNone),
                    (''current_frequency_mhz'', VNone),
                    (''cpu_usage_percent'', VFloat usage)])"
proof -
  from gather_info_run [OF assms(1,2), of s]
  obtain v_os v_cpu v_memory v_disk v_network v_environment now s1 s2 s6
    where cpu: "gather_cpu (psutil w) s1 = (Return v_cpu, s2)"
      and run: "gather_info w s =
        (Return (VDict [(''os'', v_os), (''cpu'', v_cpu), (''memory'', v_memory),
           (''disk'', v_disk), (''network'', v_network), (''environment'', v_environment),
           (''timestamp'', VStr now)]),
         s6\<lparr>calls := calls s6 @ [DatetimeNow]\<rparr>)"
    by blast
  from gather_cpu_without_freq [OF assms(4-7)] cpu assms(3)
  show ?thesis using run by simp
qed

theorem unreported_frequency_is_null_witness:
  "platform_ok nofreq_host \<and> clock_ok nofreq_host \<and>
   (\<exists>p. psutil nofreq_host = Some p \<and> cpu_freq p = Inr None) \<and>
   (\<exists>config s'. gather_info nofreq_host fresh = (Return (VDict config), s') \<and>
     map_of config ''cpu'' =
       Some (VDict [(''physical_cores'', VInt 4),
                    (''total_cores'', VInt 8),
                    (''max_frequency_mhz'', VNone),
                    (''min_frequency_mhz'', VNone),
                    (''current_frequency_mhz'', VNone),
                    (''cpu_usage_percent'', VFloat (25 / 2))]))"
proof -
  let ?p = "sample_psutil\<lparr>cpu_freq := Inr None\<rparr>"
  have ok: "platform_ok nofreq_host" "clock_ok nofreq_host"
    by (simp_all add: platform_ok_def clock_ok_def nofreq_host_def sample_host_def)
  have ps: "psutil nofreq_host = Some ?p"
    by (simp add: nofreq_host_def)
  have p: "cpu_freq ?p = Inr None" "cpu_count ?p False = Inr (Some 4)"
    "cpu_count ?p True = Inr (Some 8)" "cpu_percent ?p = Inr (25 / 2)"
    by (simp_all add: sample_psutil_def)
  from unreported_frequency_is_null [OF ok ps p, of fresh] ok ps p(1)
  show ?thesis by (simp add: opt_int_def)
qed

text \<open>
  The claim as written has the three keys absent. On the sample host without frequency
  information the cpu record holds all three, bound to \<open>None\<close>.
\<close>

theorem frequency_keys_present_counterexample:
  "fst (gather_info nofreq_host fresh) =
     Return (VDict
       [(''os'',
         VDict [(''system'', VStr ''Linux''), (''release'', VStr ''6.1.0''),
                (''version'', VStr ''#1 SMP''), (''machine'', VStr ''x86_64''),
                (''processor'', VStr ''unknown'')]),
        (''cpu'',
         VDict [(''physical_cores'', VInt 4), (''total_cores'', VInt 8),
                (''max_frequency_mhz'', VNone), (''min_frequency_mhz'', VNone),
                (''current_frequency_mhz'', VNone),
                (''cpu_usage_percent'', VFloat (25 / 2))]),
        (''memory'',
         VDict [(''total_mb'', VFloat 1024), (''available_mb'', VFloat 512),
                (''used_mb'', VFloat (3 / 25)), (''percentage'', VFloat 50)]),
        (''disk'',
         VList
          [VDict [(''device'', VStr ''/dev/sda1''), (''mountpoint'', VStr ''/''),
                  (''fstype'', VStr ''ext4''), (''opts'', VStr ''rw''),
                  (''total_mb'', VFloat 1024), (''used_mb'', VFloat (19 / 50)),
                  (''free_mb'', VFloat (51181 / 50)), (''percentage'', VFloat (1 / 10))],
           VDict [(''device'', VStr ''/dev/sr0''),
                  (''error'', VStr ''[Errno 123] No medium found'')]]),
        (''network'',
         VDict [(''lo'',
           VList [VDict [(''family'', VStr ''AddressFamily.AF_INET''),
                         (''address'', VStr ''127.0.0.1''),
                         (''netmask'', VStr ''255.0.0.0''), (''broadcast'', VNone),
                         (''ptp'', VNone)]])]),
        (''environment'', VDict [(''HOME'', VStr ''/root''), (''LANG'', VStr ''C'')]),
        (''timestamp'', VStr ''2025-02-17T10:00:00.000001'')])"
  by code_simp

subsection \<open>Printing\<close>

lemma is_ascii_append [simp]: "is_ascii (xs @ ys) \<longleftrightarrow> is_ascii xs \<and> is_ascii ys"
  by (simp add: is_ascii_def)



lemma print_frame:
  "files (snd (print w line s)) = files s" "calls (snd (print w line s)) = calls s"
  by (simp_all add: print_def split: option.splits)

lemma print_no_exit: "fst (print w line s) \<noteq> SysExit n"
  by (simp add: print_def split: option.splits)


subsection \<open>Writing the file\<close>


lemma write_config_opened:
  assumes "open_w w file_path = None"
  shows "files (snd (write_config w config file_path s)) file_path =
           Some (fst (yaml_dump w file_path config))"
  using assms
  by (auto simp: write_config_def open_and_dump_def io_simps
      split: option.splits prod.splits)

lemma write_config_opens:
  "OpenW file_path \<in> set (calls (snd (write_config w config file_path s)))"
  by (auto simp: write_config_def open_and_dump_def io_simps
      split: option.splits prod.splits)

lemma write_config_no_exit: "fst (write_config w config file_path s) \<noteq> SysExit n"
  by (auto simp: write_config_def open_and_dump_def io_simps
      split: option.splits prod.splits)

lemma keeps_file_write_config:
  assumes "path \<noteq> file_path"
  shows "keeps_file path (write_config w config file_path)"
  using assms
  by (auto simp: keeps_file_def write_config_def open_and_dump_def io_simps
      split: option.splits prod.splits)

lemma keeps_file_quiet: "quiet m \<Longrightarrow> keeps_file path m"
  by (simp add: quiet_def keeps_file_def)

lemma keeps_file_print: "keeps_file path (print w line)"
  by (simp add: keeps_file_def print_frame)

lemma keeps_file_sys_exit: "keeps_file path (sys_exit n)"
  by (simp add: keeps_file_def sys_exit_def)

lemma keeps_file_seq:
  assumes "keeps_file path m" and "\<And>x. keeps_file path (f x)"
  shows "keeps_file path (seq m f)"
  unfolding keeps_file_def
proof
  fix s
  obtain r s' where m: "m s = (r, s')" by (cases "m s")
  with assms(1) have s': "files s' path = files s path"
    unfolding keeps_file_def by (metis snd_conv)
  show "files (snd (seq m f s)) path = files s path"
  proof (cases r)
    case (Return x)
    with m have "seq m f s = f x s'" by (simp add: seq_def)
    with assms(2) [of x] s' show ?thesis by (simp add: keeps_file_def)
  qed (simp_all add: seq_def m s')
qed

lemma keeps_file_try_except:
  assumes "keeps_file path m" and "\<And>e. keeps_file path (h e)"
  shows "keeps_file path (try_except m h)"
  unfolding keeps_file_def
proof
  fix s
  obtain r s' where m: "m s = (r, s')" by (cases "m s")
  with assms(1) have s': "files s' path = files s path"
    unfolding keeps_file_def by (metis snd_conv)
  show "files (snd (try_except m h s)) path = files s path"
  proof (cases r)
    case (Raise e)
    with m have "try_except m h s = h e s'" by (simp add: try_except_def)
    with assms(2) [of e] s' show ?thesis by (simp add: keeps_file_def)
  qed (simp_all add: try_except_def m s')
qed

lemma keeps_file_script:
  assumes "path \<noteq> output_file argv"
  shows "keeps_file path (script w argv)"
  unfolding script_def main_def
  by (auto intro!: keeps_file_try_except keeps_file_seq keeps_file_print keeps_file_sys_exit
      keeps_file_quiet [OF quiet_gather_info] keeps_file_write_config [OF assms])

text \<open>
  Once the snapshot is gathered, the files and the call log at the end of the script
  are those \<open>write_config\<close> leaves: the handler of \<open>main\<close> only prints.
\<close>

lemma script_after_gather:
  assumes "yaml_importable w" and "gather_info w s = (Return config, s1)"
  shows "files (snd (script w argv s)) =
           files (snd (write_config w config (output_file argv) s1))"
    and "calls (snd (script w argv s)) =
           calls (snd (write_config w config (output_file argv) s1))"
proof -
  obtain r s2 where wc: "write_config w config (output_file argv) s1 = (r, s2)"
    by (cases "write_config w config (output_file argv) s1")
  have "files (snd (script w argv s)) = files s2 \<and> calls (snd (script w argv s)) = calls s2"
  proof (cases r)
    case (Return u)
    with wc assms show ?thesis
      by (simp add: script_def main_def seq_def try_except_def)
  next
    case (Raise e)
    obtain r' s3 where pr: "print w (''An error occurred: '' @ e) s2 = (r', s3)"
      by (cases "print w (''An error occurred: '' @ e) s2")
    with print_frame [of w "''An error occurred: '' @ e" s2]
    have s3: "files s3 = files s2" "calls s3 = calls s2"
      by simp_all
    from Raise wc assms pr s3 show ?thesis
      by (cases r') (simp_all add: script_def main_def seq_def try_except_def sys_exit_def)
  next
    case (SysExit n)
    with wc write_config_no_exit [of w config "output_file argv" s1 n] show ?thesis
      by simp
  qed
  with wc show "files (snd (script w argv s)) =
           files (snd (write_config w config (output_file argv) s1))"
    and "calls (snd (script w argv s)) =
           calls (snd (write_config w config (output_file argv) s1))"
    by simp_all
qed






subsection \<open>Startup\<close>



subsection \<open>The output path\<close>

text \<open>
  Claim C9. Without an argument the output file is \<open>system_config.yaml\<close>, with the
  argument \<open>out.yaml\<close> it is \<open>out.yaml\<close>. The script writes the dump of the
  snapshot to that path, and every other path, the default one included, keeps its
  content.
\<close>

theorem output_path_from_argv:
  "output_file [prog] = ''system_config.yaml'' \<and>
   output_file [prog, ''out.yaml''] = ''out.yaml'' \<and>
   (\<forall>path. path \<noteq> output_file argv \<longrightarrow>
      files (snd (script w argv s)) path = files s path) \<and>
   (\<forall>config s1.
      yaml_importable w \<and> gather_info w s = (Return config, s1) \<and>
      open_w w (output_file argv) = None \<longrightarrow>
      files (snd (script w argv s)) (output_file argv) =
        Some (fst (yaml_dump w (output_file argv) config)))"
proof (intro conjI allI impI)
  show "output_file [prog] = ''system_config.yaml''"
    by (simp add: output_file_def)
  show "output_file [prog, ''out.yaml''] = ''out.yaml''"
    by (simp add: output_file_def)
next
  fix path
  assume "path \<noteq> output_file argv"
  from keeps_file_script [OF this, of w]
  show "files (snd (script w argv s)) path = files s path"
    by (simp add: keeps_file_def)
next
  fix config s1
  assume a: "yaml_importable w \<and> gather_info w s = (Return config, s1) \<and>
      open_w w (output_file argv) = None"
  then have "files (snd (script w argv s)) =
      files (snd (write_config w config (output_file argv) s1))"
    using script_after_gather(1) by blast
  with a show "files (snd (script w argv s)) (output_file argv) =
        Some (fst (yaml_dump w (output_file argv) config))"
    by (simp add: write_config_opened)
qed

theorem output_path_from_argv_witness:
  "files (snd (script sample_host [''sysconfig_windows.py'', ''out.yaml''] fresh))
     ''system_config.yaml'' = Some ''old'' \<and>
   (\<exists>config s1. gather_info sample_host fresh = (Return config, s1) \<and>
      files (snd (script sample_host [''sysconfig_windows.py'', ''out.yaml''] fresh))
        ''out.yaml'' = Some (fst (yaml_dump sample_host ''out.yaml'' config)) \<and>
      files (snd (script sample_host [''sysconfig_windows.py''] fresh))
        ''system_config.yaml'' = Some (fst (yaml_dump sample_host ''system_config.yaml'' config)))"
proof -
  let ?one = "[''sysconfig_windows.py'']"
  let ?two = "[''sysconfig_windows.py'', ''out.yaml'']"
  have ok: "platform_ok sample_host" "clock_ok sample_host"
    by (simp_all add: platform_ok_def clock_ok_def sample_host_def)
  from gather_info_run [OF ok, of fresh]
  obtain config s1 where run: "gather_info sample_host fresh = (Return config, s1)"
    by blast
  have yaml: "yaml_importable sample_host"
    by (simp add: sample_host_def)
  have opens: "open_w sample_host ''out.yaml'' = None"
    "open_w sample_host ''system_config.yaml'' = None"
    by (simp_all add: sample_host_def)
  have one: "output_file ?one = ''system_config.yaml''"
    and two: "output_file ?two = ''out.yaml''"
    by (simp_all add: output_file_def)
  have old: "files fresh ''system_config.yaml'' = Some ''old''"
    by (simp add: fresh_def)
  from output_path_from_argv [of "''sysconfig_windows.py''" ?two sample_host fresh]
  have a: "files (snd (script sample_host ?two fresh)) ''system_config.yaml'' = Some ''old''"
    and b: "files (snd (script sample_host ?two fresh)) ''out.yaml'' =
      Some (fst (yaml_dump sample_host ''out.yaml'' config))"
    using run yaml opens two old by simp_all
  from output_path_from_argv [of "''sysconfig_windows.py''" ?one sample_host fresh]
  have c: "files (snd (script sample_host ?one fresh)) ''system_config.yaml'' =
      Some (fst (yaml_dump sample_host ''system_config.yaml'' config))"
    using run yaml opens one by simp
  from a b c run show ?thesis
    by blast
qed

text \<open>
  Claim C10. With two or more arguments the first one is the output path and the
  others play no part: the run is the run with that argument alone, it opens the file
  at that path once the snapshot is gathered, the dump goes there, and no other path
  is touched.
\<close>

theorem extra_arguments_ignored:
  "output_file (prog # file_path # extra) = file_path \<and>
   main w (prog # file_path # extra) = main w [prog, file_path] \<and>
   script w (prog # file_path # extra) = script w [prog, file_path] \<and>
   (\<forall>config s1.
      yaml_importable w \<and> gather_info w s = (Return config, s1) \<longrightarrow>
      OpenW file_path \<in> set (calls (snd (script w (prog # file_path # extra) s)))) \<and>
   (\<forall>config s1.
      yaml_importable w \<and> gather_info w s = (Return config, s1) \<and>
      open_w w file_path = None \<longrightarrow>
      files (snd (script w (prog # file_path # extra) s)) file_path =
        Some (fst (yaml_dump w file_path config))) \<and>
   (\<forall>path. path \<noteq> file_path \<longrightarrow>
      files (snd (script w (prog # file_path # extra) s)) path = files s path)"
proof -
  let ?argv = "prog # file_path # extra"
  have path: "output_file ?argv = file_path"
    by (simp add: output_file_def)
  have same: "main w ?argv = main w [prog, file_path]"
    "script w ?argv = script w [prog, file_path]"
    by (simp_all add: script_def main_def output_file_def)
  have opened: "OpenW file_path \<in> set (calls (snd (script w ?argv s)))"
    if "yaml_importable w \<and> gather_info w s = (Return config, s1)" for config s1
    using script_after_gather(2) [of w s config s1 ?argv] that
    by (simp add: path write_config_opens)
  have written: "files (snd (script w ?argv s)) file_path =
      Some (fst (yaml_dump w file_path config))"
    if "yaml_importable w \<and> gather_info w s = (Return config, s1) \<and>
      open_w w file_path = None" for config s1
    using script_after_gather(1) [of w s config s1 ?argv] that
    by (simp add: path write_config_opened)
  have others: "files (snd (script w ?argv s)) p = files s p" if "p \<noteq> file_path" for p
    using keeps_file_script [of p ?argv w] that by (simp add: path keeps_file_def)
  from path same opened written others show ?thesis
    by blast
qed

theorem extra_arguments_ignored_witness:
  "output_file [''sysconfig_windows.py'', ''out.yaml'', ''more.yaml'', ''--force''] = ''out.yaml'' \<and>
   script sample_host [''sysconfig_windows.py'', ''out.yaml'', ''more.yaml'', ''--force''] fresh =
   script sample_host [''sysconfig_windows.py'', ''out.yaml''] fresh \<and>
   (\<exists>config s1. gather_info sample_host fresh = (Return config, s1) \<and>
      files (snd (script sample_host
         [''sysconfig_windows.py'', ''out.yaml'', ''more.yaml'', ''--force''] fresh)) ''out.yaml'' =
        Some (fst (yaml_dump sample_host ''out.yaml'' config))) \<and>
   files (snd (script sample_host
      [''sysconfig_windows.py'', ''out.yaml'', ''more.yaml'', ''--force''] fresh)) ''more.yaml'' = None \<and>
   files (snd (script sample_host
      [''sysconfig_windows.py'', ''out.yaml'', ''more.yaml'', ''--force''] fresh))
      ''system_config.yaml'' = Some ''old''"
proof -
  let ?argv = "[''sysconfig_windows.py'', ''out.yaml'', ''more.yaml'', ''--force'']"
  have ok: "platform_ok sample_host" "clock_ok sample_host"
    by (simp_all add: platform_ok_def clock_ok_def sample_host_def)
  from gather_info_run [OF ok, of fresh]
  obtain config s1 where run: "gather_info sample_host fresh = (Return config, s1)"
    by blast
  have yaml: "yaml_importable sample_host" and opens: "open_w sample_host ''out.yaml'' = None"
    by (simp_all add: sample_host_def)
  have old: "files fresh ''system_config.yaml'' = Some ''old''"
    "files fresh ''more.yaml'' = None"
    by (simp_all add: fresh_def)
  note inst = extra_arguments_ignored
    [of "''sysconfig_windows.py''" "''out.yaml''" "[''more.yaml'', ''--force'']"
      sample_host fresh]
  note path = inst [THEN conjunct1]
  note same = inst [THEN conjunct2, THEN conjunct2, THEN conjunct1]
  note written = inst [THEN conjunct2, THEN conjunct2, THEN conjunct2, THEN conjunct2,
    THEN conjunct1, rule_format]
  note others = inst [THEN conjunct2, THEN conjunct2, THEN conjunct2, THEN conjunct2,
    THEN conjunct2, rule_format]
  have out: "files (snd (script sample_host ?argv fresh)) ''out.yaml'' =
      Some (fst (yaml_dump sample_host ''out.yaml'' config))"
    by (rule written) (simp add: run yaml opens)
  have "files (snd (script sample_host ?argv fresh)) ''more.yaml'' = files fresh ''more.yaml''"
    by (rule others) simp
  with old have more: "files (snd (script sample_host ?argv fresh)) ''more.yaml'' = None"
    by simp
  have "files (snd (script sample_host ?argv fresh)) ''system_config.yaml'' =
      files fresh ''system_config.yaml''"
    by (rule others) simp
  with old have dflt: "files (snd (script sample_host ?argv fresh)) ''system_config.yaml'' =
      Some ''old''"
    by simp
  from same have same': "script sample_host ?argv fresh =
      script sample_host [''sysconfig_windows.py'', ''out.yaml''] fresh"
    by (rule arg_cong [where f = "\<lambda>m. m fresh"])
  from run out have "\<exists>config s1. gather_info sample_host fresh = (Return config, s1) \<and>
      files (snd (script sample_host ?argv fresh)) ''out.yaml'' =
        Some (fst (yaml_dump sample_host ''out.yaml'' config))"
    by blast
  with path same' more dflt show ?thesis
    by (intro conjI)
qed

end
